theory Spec2Isabelle
  imports Main "HOL-Library.Word"
begin

section \<open>Scope-bound deferred execution (deferral.hh)\<close>

text \<open>
  The header \<^verbatim>\<open>include/deferral.hh\<close> defines four triggering policies and the class
  template \<^verbatim>\<open>DeferBase<funcT, policyT>\<close>, which stores a callable and runs it from its
  destructor when the policy says so. The embedding below follows the header member by
  member.
\<close>

subsection \<open>The C++ \<^verbatim>\<open>int\<close> and the runtime's exception counter\<close>

text \<open>
  \<^verbatim>\<open>int\<close> is a 32-bit two's complement integer; \<^verbatim>\<open><\<close> and \<^verbatim>\<open>>=\<close> on it are the signed
  comparisons \<open><s\<close> and \<open>\<le>s\<close>.
\<close>

type_synonym cint = "32 word"

definition INT_MAX :: cint where
  \<comment> \<open>\<^verbatim>\<open>std::numeric_limits<int>::max()\<close>\<close>
  "INT_MAX = 2147483647"

text \<open>
  The part of the program state the header can observe or change: the value that
  \<^verbatim>\<open>std::uncaught_exceptions()\<close> returns at this moment (the number of exceptions
  thrown and not yet caught in this thread, so never negative), and the calls of stored
  callables made so far, oldest first. A callable is kept abstract (type \<open>'f\<close>); the call
  \<^verbatim>\<open>func()\<close>, which is taken to return, is recorded by appending the callable to
  \<open>calls\<close>.
\<close>

record 'f world =
  uncaught_exceptions :: cint
  calls :: "'f list"

subsection \<open>The policies\<close>

text \<open>
  The template argument \<^verbatim>\<open>policyT\<close> is one of four classes. \<open>policyT\<close> names the class,
  \<open>policy_t\<close> is an object of it with its data member: \<^verbatim>\<open>OnExitNoCheckPolicy\<close> has none,
  \<^verbatim>\<open>OnExitPolicy\<close> has \<^verbatim>\<open>bool active\<close>, \<^verbatim>\<open>OnFailPolicy\<close> and \<^verbatim>\<open>OnSuccessPolicy\<close> have
  \<^verbatim>\<open>int exception_count\<close>.
\<close>

datatype policyT = OnExitNoCheck | OnExit | OnFail | OnSuccess

datatype policy_t =
    OnExitNoCheckPolicy
  | OnExitPolicy bool
  | OnFailPolicy cint
  | OnSuccessPolicy cint

text \<open>
  \<^verbatim>\<open>policyT{}\<close>: the default member initialisers, \<^verbatim>\<open>active{true}\<close> and
  \<^verbatim>\<open>exception_count{std::uncaught_exceptions()}\<close>. The second argument is the value the
  runtime returns when the object is initialised.
\<close>

fun policy_init :: "policyT \<Rightarrow> cint \<Rightarrow> policy_t" where
  "policy_init OnExitNoCheck n = OnExitNoCheckPolicy"
| "policy_init OnExit n = OnExitPolicy True"
| "policy_init OnFail n = OnFailPolicy n"
| "policy_init OnSuccess n = OnSuccessPolicy n"

text \<open>
  \<^verbatim>\<open>release()\<close> of each class:
  \<^verbatim>\<open>static void release() noexcept {}\<close>,
  \<^verbatim>\<open>active = false\<close>,
  \<^verbatim>\<open>exception_count = std::numeric_limits<int>::max()\<close>,
  \<^verbatim>\<open>exception_count = -1\<close>.
\<close>

fun release :: "policy_t \<Rightarrow> policy_t" where
  "release OnExitNoCheckPolicy = OnExitNoCheckPolicy"
| "release (OnExitPolicy active) = OnExitPolicy False"
| "release (OnFailPolicy exception_count) = OnFailPolicy INT_MAX"
| "release (OnSuccessPolicy exception_count) = OnSuccessPolicy (- 1)"

text \<open>
  \<^verbatim>\<open>should_execute()\<close> of each class; the second argument is the value of
  \<^verbatim>\<open>std::uncaught_exceptions()\<close> at the call:
  \<^verbatim>\<open>return true\<close>,
  \<^verbatim>\<open>return active\<close>,
  \<^verbatim>\<open>return exception_count < std::uncaught_exceptions()\<close>,
  \<^verbatim>\<open>return exception_count >= std::uncaught_exceptions()\<close>.
\<close>

fun should_execute :: "policy_t \<Rightarrow> cint \<Rightarrow> bool" where
  "should_execute OnExitNoCheckPolicy n = True"
| "should_execute (OnExitPolicy active) n = active"
| "should_execute (OnFailPolicy exception_count) n = (exception_count <s n)"
| "should_execute (OnSuccessPolicy exception_count) n = (n \<le>s exception_count)"

subsection \<open>The guard: \<^verbatim>\<open>DeferBase<funcT, policyT>\<close>\<close>

text \<open>
  The class derives from its policy (field \<open>policy\<close>, the base class subobject) and has
  one data member, \<^verbatim>\<open>func_t func\<close>.
\<close>

record 'f DeferBase =
  policy :: policy_t
  func :: 'f

text \<open>
  \<^verbatim>\<open>explicit DeferBase(F&& f) : policyT{}, func{std::move_if_noexcept(f)} {}\<close>.
  The constructor returns the new object and the program state it leaves.
\<close>

definition DeferBase_ctor :: "policyT \<Rightarrow> 'f \<Rightarrow> 'f world \<Rightarrow> 'f DeferBase \<times> 'f world" where
  "DeferBase_ctor k f w =
     (\<lparr>policy = policy_init k (uncaught_exceptions w), func = f\<rparr>, w)"

text \<open>\<^verbatim>\<open>using policy_t::release;\<close>\<close>

definition DeferBase_release :: "'f DeferBase \<Rightarrow> 'f DeferBase" where
  "DeferBase_release g = g\<lparr>policy := release (policy g)\<rparr>"

text \<open>
  \<^verbatim>\<open>DeferBase(DeferBase&& other) : policy_t{std::move(other)},
  func{std::forward<func_t>(other.func)} { other.release(); }\<close>.
  The policy classes have implicit move constructors, which copy the data member. The
  result is the new object, \<^verbatim>\<open>other\<close> as the constructor leaves it, and the program
  state. The new object's callable is move-constructed from \<^verbatim>\<open>other.func\<close> and has its
  value. What the move constructor of \<^verbatim>\<open>func_t\<close> leaves behind in \<^verbatim>\<open>other.func\<close> depends
  on the callable's type, which the header does not fix: it is the parameter \<open>mv\<close>. For
  the closures the macros and the tests build, which capture by reference only, a move
  is a copy (\<open>closure_move\<close>); a moved-from \<^verbatim>\<open>std::function\<close> is the empty one.
\<close>

definition DeferBase_move ::
  "('f \<Rightarrow> 'f) \<Rightarrow> 'f DeferBase \<Rightarrow> 'f world \<Rightarrow> 'f DeferBase \<times> 'f DeferBase \<times> 'f world"
  where
  "DeferBase_move mv other w =
     (\<lparr>policy = policy other, func = func other\<rparr>,
      DeferBase_release (other\<lparr>func := mv (func other)\<rparr>), w)"

text \<open>
  \<^verbatim>\<open>~DeferBase() { if (policy_t::should_execute()) { func(); } }\<close>
  (\<^verbatim>\<open>__builtin_expect\<close> returns its first argument).
\<close>

definition DeferBase_dtor :: "'f DeferBase \<Rightarrow> 'f world \<Rightarrow> 'f world" where
  "DeferBase_dtor g w =
     (if should_execute (policy g) (uncaught_exceptions w)
      then w\<lparr>calls := calls w @ [func g]\<rparr> else w)"

subsection \<open>Leaving a block\<close>

text \<open>
  What the language does around the guards, as the tests use them
  (\<^verbatim>\<open>tests/deferral_test.cc\<close>): \<^verbatim>\<open>throw 0;\<close> makes the runtime count one more uncaught
  exception, and a block that is left, normally or by the exception, destroys its
  automatic objects in the reverse order of their construction. \<open>leave_block\<close> takes the
  guards of the block in declaration order.
\<close>

definition throw_exception :: "'f world \<Rightarrow> 'f world" where
  "throw_exception w = w\<lparr>uncaught_exceptions := uncaught_exceptions w + 1\<rparr>"

fun leave_block :: "'f DeferBase list \<Rightarrow> 'f world \<Rightarrow> 'f world" where
  "leave_block [] w = w"
| "leave_block (g # gs) w = DeferBase_dtor g (leave_block gs w)"

subsection \<open>The states of the tests\<close>

text \<open>
  The tests start with no exception in flight and no callable run yet; their callables
  are the closures \<^verbatim>\<open>[&]() { x = 1; }\<close>, \<^verbatim>\<open>[&]() { y = 1; }\<close> and
  \<^verbatim>\<open>[&]() { z = 1; }\<close>, named here by their bodies.
\<close>

definition test_start :: "string world" where
  "test_start = \<lparr>uncaught_exceptions = 0, calls = []\<rparr>"

definition set_x :: string where
  "set_x = ''x = 1''"

definition set_y :: string where
  "set_y = ''y = 1''"

definition set_z :: string where
  "set_z = ''z = 1''"

definition closure_move :: "string \<Rightarrow> string" where
  \<comment> \<open>what moving one of these closures leaves in the source: the same closure\<close>
  "closure_move f = f"

section \<open>Properties\<close>

subsection \<open>Signed comparisons of \<^verbatim>\<open>int\<close>\<close>

lemma INT_MAX_greatest: "\<not> (INT_MAX <s (n :: cint))"
proof -
  have "sint n < 2 ^ (LENGTH(32) - 1)" by (rule sint_lt)
  then show ?thesis by (simp add: INT_MAX_def word_sless_alt)
qed

lemma minus_one_below_nonneg: "0 \<le>s (n :: cint) \<Longrightarrow> \<not> (n \<le>s - 1)"
  by (simp add: word_sle_eq)

lemma sless_iff_not_sle: "((m :: cint) <s n) = (\<not> (n \<le>s m))"
  by (simp add: word_sless_alt word_sle_eq not_le)

subsection \<open>The tests of the repository\<close>

text \<open>
  The embedding gives what \<^verbatim>\<open>tests/deferral_test.cc\<close> expects. A variable that a test
  expects to be 1 after the block is one whose closure is in the list of calls.
  \<^verbatim>\<open>defer\<close> constructs a guard of the \<^verbatim>\<open>OnExitNoCheckPolicy\<close>, \<^verbatim>\<open>defer_(d)\<close> and
  \<^verbatim>\<open>DeferExit\<close> one of the \<^verbatim>\<open>OnExitPolicy\<close>, \<^verbatim>\<open>defer_fail\<close> and \<^verbatim>\<open>DeferFail\<close> one of the
  \<^verbatim>\<open>OnFailPolicy\<close>, \<^verbatim>\<open>defer_success\<close> and \<^verbatim>\<open>DeferSuccess\<close> one of the
  \<^verbatim>\<open>OnSuccessPolicy\<close>.
\<close>

lemma TestExit:
  "calls (leave_block [fst (DeferBase_ctor OnExitNoCheck set_x test_start)] test_start)
     = [set_x]"
  by (simp add: DeferBase_dtor_def DeferBase_ctor_def test_start_def)

lemma TestExitThrow:
  "calls (leave_block [fst (DeferBase_ctor OnExitNoCheck set_x test_start)]
            (throw_exception test_start))
     = [set_x]"
  by (simp add: DeferBase_dtor_def DeferBase_ctor_def test_start_def throw_exception_def)

lemma TestExitRelease:
  "calls (leave_block [DeferBase_release (fst (DeferBase_ctor OnExit set_x test_start))]
            test_start) = []"
  "calls (leave_block [fst (DeferBase_ctor OnExit set_x test_start)] test_start) = [set_x]"
  by (simp_all add: DeferBase_dtor_def DeferBase_release_def DeferBase_ctor_def
      test_start_def)

lemma TestSuccessFail:
  "calls (leave_block [fst (DeferBase_ctor OnSuccess set_x test_start),
                       fst (DeferBase_ctor OnFail set_y test_start)] test_start)
     = [set_x]"
  by (simp add: DeferBase_dtor_def DeferBase_ctor_def test_start_def)

lemma TestSuccessFailThrow:
  "calls (leave_block [fst (DeferBase_ctor OnSuccess set_x test_start),
                       fst (DeferBase_ctor OnFail set_y test_start)]
            (throw_exception test_start))
     = [set_y]"
  by (simp add: DeferBase_dtor_def DeferBase_ctor_def test_start_def throw_exception_def
      word_sless_alt word_sle_eq)

lemma TestSuccessFailRelease:
  "calls (leave_block
            [DeferBase_release (fst (DeferBase_ctor OnSuccess set_x test_start)),
             DeferBase_release (fst (DeferBase_ctor OnFail set_y test_start))]
            test_start) = []"
  by (simp add: DeferBase_dtor_def DeferBase_release_def DeferBase_ctor_def test_start_def
      INT_MAX_def word_sless_alt word_sle_eq)

lemma TestTypeDeductionGuides:
  "calls (leave_block [fst (DeferBase_ctor OnExit set_x test_start),
                       fst (DeferBase_ctor OnFail set_y test_start),
                       fst (DeferBase_ctor OnSuccess set_z test_start)] test_start)
     = [set_z, set_x]"
  by (simp add: DeferBase_dtor_def DeferBase_ctor_def test_start_def)

lemma TestTypeDeductionGuidesWithThrow:
  "calls (leave_block [fst (DeferBase_ctor OnExit set_x test_start),
                       fst (DeferBase_ctor OnFail set_y test_start),
                       fst (DeferBase_ctor OnSuccess set_z test_start)]
            (throw_exception test_start))
     = [set_y, set_x]"
  by (simp add: DeferBase_dtor_def DeferBase_ctor_def test_start_def throw_exception_def
      word_sless_alt word_sle_eq)

subsection \<open>The fire decision of the failure-sensitive policies\<close>

text \<open>
  C1. A guard with the \<^verbatim>\<open>OnFailPolicy\<close>, constructed in state \<open>w\<close> and neither released
  nor moved from, has \<^verbatim>\<open>should_execute()\<close> true at a count \<open>n\<close> exactly when the count at
  construction is strictly less than \<open>n\<close>; with the \<^verbatim>\<open>OnSuccessPolicy\<close>, exactly when \<open>n\<close>
  is less than or equal to the count at construction. The destructor calls the stored
  callable in exactly these cases.
\<close>

theorem should_execute_baseline:
  "should_execute (policy (fst (DeferBase_ctor OnFail f w))) n
     = (uncaught_exceptions w <s n)
   \<and> should_execute (policy (fst (DeferBase_ctor OnSuccess f w))) n
     = (n \<le>s uncaught_exceptions w)
   \<and> calls (DeferBase_dtor (fst (DeferBase_ctor OnFail f w)) w')
     = (if uncaught_exceptions w <s uncaught_exceptions w'
        then calls w' @ [f] else calls w')
   \<and> calls (DeferBase_dtor (fst (DeferBase_ctor OnSuccess f w)) w')
     = (if uncaught_exceptions w' \<le>s uncaught_exceptions w
        then calls w' @ [f] else calls w')"
  by (simp add: DeferBase_ctor_def DeferBase_dtor_def)

text \<open>
  C2. An \<^verbatim>\<open>OnFailPolicy\<close> guard and an \<^verbatim>\<open>OnSuccessPolicy\<close> guard constructed in the same
  state, neither released nor moved from: at every count \<open>n\<close> the two
  \<^verbatim>\<open>should_execute()\<close> results are opposite, so exactly one of the two is true, and
  leaving their block in any state \<open>w'\<close> adds exactly one call, of one of the two
  callables.
\<close>

theorem fail_success_exclusive:
  "should_execute (policy (fst (DeferBase_ctor OnFail f w))) n
     \<noteq> should_execute (policy (fst (DeferBase_ctor OnSuccess h w))) n
   \<and> calls (leave_block [fst (DeferBase_ctor OnSuccess h w),
                          fst (DeferBase_ctor OnFail f w)] w')
     = calls w' @ [if uncaught_exceptions w <s uncaught_exceptions w' then f else h]"
  by (simp add: DeferBase_ctor_def DeferBase_dtor_def sless_iff_not_sle)

subsection \<open>Helper facts on the operations\<close>

lemma should_execute_release:
  "p \<noteq> OnExitNoCheckPolicy \<Longrightarrow> 0 \<le>s n \<Longrightarrow> \<not> should_execute (release p) n"
  by (cases p) (simp_all add: INT_MAX_greatest minus_one_below_nonneg)

lemma release_release: "release (release p) = release p"
  by (cases p) simp_all

lemma release_keeps_class:
  "p \<noteq> OnExitNoCheckPolicy \<Longrightarrow> release p \<noteq> OnExitNoCheckPolicy"
  by (cases p) simp_all

lemma dtor_of_released:
  "policy g \<noteq> OnExitNoCheckPolicy \<Longrightarrow> 0 \<le>s uncaught_exceptions w \<Longrightarrow>
   DeferBase_dtor (DeferBase_release g) w = w"
  by (simp add: DeferBase_dtor_def DeferBase_release_def should_execute_release)

lemma move_gives_copy: "fst (DeferBase_move mv g w) = g"
  by (simp add: DeferBase_move_def)

lemma move_leaves_released:
  "fst (snd (DeferBase_move mv g w)) = DeferBase_release (g\<lparr>func := mv (func g)\<rparr>)"
  by (simp add: DeferBase_move_def)

lemma dtor_of_moved_from:
  "policy g \<noteq> OnExitNoCheckPolicy \<Longrightarrow> 0 \<le>s uncaught_exceptions w \<Longrightarrow>
   DeferBase_dtor (fst (snd (DeferBase_move mv g v))) w = w"
  by (simp add: move_leaves_released dtor_of_released)

lemma dtor_at_most_one_call:
  "length (calls (DeferBase_dtor g w)) \<le> length (calls w) + 1"
  by (simp add: DeferBase_dtor_def)

lemma dtor_calls:
  "calls (DeferBase_dtor g w) =
     (if should_execute (policy g) (uncaught_exceptions w)
      then calls w @ [func g] else calls w)"
  by (simp add: DeferBase_dtor_def)

lemma dtor_uncaught [simp]:
  "uncaught_exceptions (DeferBase_dtor g w) = uncaught_exceptions w"
  by (simp add: DeferBase_dtor_def)

lemma test_start_nonneg: "0 \<le>s uncaught_exceptions test_start"
  by (simp add: test_start_def)

lemma thrown_nonneg: "0 \<le>s uncaught_exceptions (throw_exception test_start)"
  by (simp add: test_start_def throw_exception_def word_sle_eq)

subsection \<open>Release\<close>

text \<open>
  C3, as the code has it. For a guard of the \<^verbatim>\<open>OnExitPolicy\<close>, the \<^verbatim>\<open>OnFailPolicy\<close> or the
  \<^verbatim>\<open>OnSuccessPolicy\<close>, in any state \<open>g\<close> it can be in, once \<^verbatim>\<open>release()\<close> has been called
  the destructor does not call the stored callable, whatever the count of uncaught
  exceptions (zero or more) when the block is left: the program state is unchanged. The
  same holds when \<^verbatim>\<open>release()\<close> is called again or the guard is moved from afterwards
  (whatever the move leaves of the callable), and for the two ways the tests leave a
  block.
\<close>

theorem release_suppresses:
  assumes "policy g \<noteq> OnExitNoCheckPolicy"
      and "0 \<le>s uncaught_exceptions w"
  shows "DeferBase_dtor (DeferBase_release g) w = w
       \<and> DeferBase_dtor (DeferBase_release (DeferBase_release g)) w = w
       \<and> DeferBase_dtor (fst (snd (DeferBase_move mv (DeferBase_release g) w'))) w = w
       \<and> leave_block [DeferBase_release g] w = w"
proof -
  have r: "DeferBase_dtor (DeferBase_release g) w = w"
    using assms by (rule dtor_of_released)
  have rr: "DeferBase_release (DeferBase_release g) = DeferBase_release g"
    by (simp add: DeferBase_release_def release_release)
  have "policy (DeferBase_release g) \<noteq> OnExitNoCheckPolicy"
    using assms(1) by (simp add: DeferBase_release_def release_keeps_class)
  then have m: "DeferBase_dtor (fst (snd (DeferBase_move mv (DeferBase_release g) w'))) w = w"
    using assms(2) by (rule dtor_of_moved_from)
  show ?thesis by (simp add: r rr m)
qed

theorem release_suppresses_witness:
  "policy (fst (DeferBase_ctor OnFail set_y test_start)) \<noteq> OnExitNoCheckPolicy
   \<and> 0 \<le>s uncaught_exceptions (throw_exception test_start)
   \<and> should_execute (policy (fst (DeferBase_ctor OnFail set_y test_start)))
       (uncaught_exceptions (throw_exception test_start))
   \<and> leave_block [DeferBase_release (fst (DeferBase_ctor OnFail set_y test_start))]
       (throw_exception test_start) = throw_exception test_start"
proof -
  have p: "policy (fst (DeferBase_ctor OnFail set_y test_start)) \<noteq> OnExitNoCheckPolicy"
    by (simp add: DeferBase_ctor_def)
  have s: "should_execute (policy (fst (DeferBase_ctor OnFail set_y test_start)))
       (uncaught_exceptions (throw_exception test_start))"
    by (simp add: DeferBase_ctor_def test_start_def throw_exception_def word_sless_alt)
  show ?thesis
    using release_suppresses [OF p thrown_nonneg] p s thrown_nonneg by simp
qed

text \<open>
  Counterexample to C3 as stated, with the \<^verbatim>\<open>OnExitNoCheckPolicy\<close>, whose \<^verbatim>\<open>release()\<close> does nothing: a
  guard of this policy, released and then destroyed in the state of a normal exit, calls
  its callable.
\<close>

theorem release_nocheck_still_fires:
  "calls (DeferBase_dtor
            (DeferBase_release (fst (DeferBase_ctor OnExitNoCheck set_x test_start)))
            test_start) = [set_x]"
  by (simp add: DeferBase_dtor_def DeferBase_release_def DeferBase_ctor_def test_start_def)

subsection \<open>Move construction\<close>

text \<open>
  What the move constructor is written for, \<^verbatim>\<open>other.release()\<close> as its last step, it
  achieves for a guard \<open>g\<close> of the \<^verbatim>\<open>OnExitPolicy\<close>, the \<^verbatim>\<open>OnFailPolicy\<close> or the
  \<^verbatim>\<open>OnSuccessPolicy\<close>, in any state: the source is disarmed for good. Its destructor, in
  any later state \<open>w2\<close> with a count of zero or more, changes nothing, also after a
  further \<^verbatim>\<open>release()\<close>, and so does the destructor of a guard moved from the
  moved-from source. The destination calls the callable exactly when \<open>g\<close> would have, so
  the destructors of source and destination, in either order, add at most one call.
  (One destructor alone adds at most one call for every policy:
  \<open>dtor_at_most_one_call\<close>.)
\<close>

lemma move_fires_at_most_once:
  assumes "policy g \<noteq> OnExitNoCheckPolicy"
      and "DeferBase_move mv g w = (new, other, w1)"
      and "0 \<le>s uncaught_exceptions w2"
  shows "DeferBase_dtor other w2 = w2
       \<and> DeferBase_dtor (DeferBase_release other) w2 = w2
       \<and> DeferBase_dtor (fst (DeferBase_move mv' other w4)) w2 = w2
       \<and> DeferBase_dtor new w3 = DeferBase_dtor g w3
       \<and> length (calls (DeferBase_dtor other (DeferBase_dtor new w2)))
           \<le> length (calls w2) + 1
       \<and> length (calls (DeferBase_dtor new (DeferBase_dtor other w2)))
           \<le> length (calls w2) + 1"
proof -
  from assms(2) have new: "new = \<lparr>policy = policy g, func = func g\<rparr>"
    and other: "other = DeferBase_release (g\<lparr>func := mv (func g)\<rparr>)"
    by (simp_all add: DeferBase_move_def)
  have g': "policy (g\<lparr>func := mv (func g)\<rparr>) \<noteq> OnExitNoCheckPolicy"
    using assms(1) by simp
  have src: "DeferBase_dtor other v = v" if "0 \<le>s uncaught_exceptions v" for v
    unfolding other using g' that by (rule dtor_of_released)
  have "policy (DeferBase_release (g\<lparr>func := mv (func g)\<rparr>)) \<noteq> OnExitNoCheckPolicy"
    using assms(1) by (simp add: DeferBase_release_def release_keeps_class)
  then have src2: "DeferBase_dtor (DeferBase_release other) w2 = w2"
    unfolding other using assms(3) by (rule dtor_of_released)
  have src3: "DeferBase_dtor (fst (DeferBase_move mv' other w4)) w2 = w2"
    using src [OF assms(3)] by (simp add: move_gives_copy)
  have dst: "DeferBase_dtor new w3 = DeferBase_dtor g w3"
    by (simp add: new DeferBase_dtor_def)
  have "0 \<le>s uncaught_exceptions (DeferBase_dtor new w2)"
    using assms(3) by simp
  then have a: "DeferBase_dtor other (DeferBase_dtor new w2) = DeferBase_dtor new w2"
    by (rule src)
  have b: "DeferBase_dtor new (DeferBase_dtor other w2) = DeferBase_dtor new w2"
    by (simp add: src [OF assms(3)])
  show ?thesis
    using dtor_at_most_one_call [of new w2] src [OF assms(3)] src2 src3 dst a b by simp
qed

lemma move_fires_at_most_once_example:
  "policy (fst (DeferBase_ctor OnExit set_x test_start)) \<noteq> OnExitNoCheckPolicy
   \<and> 0 \<le>s uncaught_exceptions test_start
   \<and> DeferBase_dtor
        (fst (snd (DeferBase_move closure_move
           (fst (DeferBase_ctor OnExit set_x test_start)) test_start)))
        test_start = test_start
   \<and> calls (DeferBase_dtor
        (fst (DeferBase_move closure_move
           (fst (DeferBase_ctor OnExit set_x test_start)) test_start))
        test_start) = [set_x]"
proof -
  have p: "policy (fst (DeferBase_ctor OnExit set_x test_start)) \<noteq> OnExitNoCheckPolicy"
    by (simp add: DeferBase_ctor_def)
  have m: "DeferBase_move closure_move (fst (DeferBase_ctor OnExit set_x test_start)) test_start =
     (fst (DeferBase_move closure_move
        (fst (DeferBase_ctor OnExit set_x test_start)) test_start),
      fst (snd (DeferBase_move closure_move
        (fst (DeferBase_ctor OnExit set_x test_start)) test_start)),
      snd (snd (DeferBase_move closure_move
        (fst (DeferBase_ctor OnExit set_x test_start)) test_start)))"
    by simp
  have c: "calls (DeferBase_dtor (fst (DeferBase_ctor OnExit set_x test_start)) test_start)
      = [set_x]"
    by (simp add: DeferBase_dtor_def DeferBase_ctor_def test_start_def)
  show ?thesis
    using move_fires_at_most_once [OF p m test_start_nonneg, where ?w3.0 = test_start] p c
      test_start_nonneg
    by simp
qed

text \<open>
  C4 says that for every policy a moved-from guard never calls the stored callable, so
  that source and destination together call it at most once. The code breaks this for
  the \<^verbatim>\<open>OnExitNoCheckPolicy\<close>: the \<^verbatim>\<open>release()\<close> by which the move constructor
  disarms its source does nothing there. A guard of this policy constructed with the
  closure \<^verbatim>\<open>[&]() { x = 1; }\<close> and moved, with no exception in flight: the destructor of
  the moved-from source calls the closure, and the destructors of destination and
  source make two calls in all. When the move in \<^verbatim>\<open>defer { x = 1; };\<close> is not elided
  (before C++17), the source is the temporary, destroyed at the end of the
  declaration, where \<^verbatim>\<open>TestExit\<close> expects \<^verbatim>\<open>x\<close> to be 0 still.
\<close>

theorem move_nocheck_fires_twice:
  "calls (DeferBase_dtor
       (fst (snd (DeferBase_move closure_move
          (fst (DeferBase_ctor OnExitNoCheck set_x test_start)) test_start)))
       test_start)
   = [set_x]
   \<and> calls (DeferBase_dtor
       (fst (snd (DeferBase_move closure_move
          (fst (DeferBase_ctor OnExitNoCheck set_x test_start)) test_start)))
       (DeferBase_dtor
          (fst (DeferBase_move closure_move
             (fst (DeferBase_ctor OnExitNoCheck set_x test_start)) test_start))
          test_start))
   = [set_x, set_x]"
  by (simp add: DeferBase_dtor_def DeferBase_move_def DeferBase_release_def
      DeferBase_ctor_def test_start_def closure_move_def)

subsection \<open>The \<^verbatim>\<open>OnExitPolicy\<close>\<close>

text \<open>
  C5. A guard of the \<^verbatim>\<open>OnExitPolicy\<close>, constructed in any state \<open>w\<close> and neither released
  nor moved from: its destructor, in any state \<open>w'\<close> and so whatever the count of uncaught
  exceptions, adds exactly one call of the stored callable and changes nothing else. So
  does leaving its block, normally or after \<^verbatim>\<open>throw\<close>.
\<close>

theorem exit_fires_once:
  "DeferBase_dtor (fst (DeferBase_ctor OnExit f w)) w' = w'\<lparr>calls := calls w' @ [f]\<rparr>
   \<and> calls (leave_block [fst (DeferBase_ctor OnExit f w)] (snd (DeferBase_ctor OnExit f w)))
       = calls w @ [f]
   \<and> calls (leave_block [fst (DeferBase_ctor OnExit f w)]
              (throw_exception (snd (DeferBase_ctor OnExit f w))))
       = calls w @ [f]"
  by (simp add: DeferBase_dtor_def DeferBase_ctor_def throw_exception_def)

subsection \<open>Guards constructed while an exception is in flight\<close>

text \<open>
  C6. A guard of the \<^verbatim>\<open>OnFailPolicy\<close> or the \<^verbatim>\<open>OnSuccessPolicy\<close> constructed in a state \<open>w\<close>
  whose count of uncaught exceptions is positive stores that count, which is not zero.
  Destroyed in a state with the same count (here \<open>w\<close> with any calls made meanwhile), the
  \<^verbatim>\<open>OnFailPolicy\<close> guard does not call its callable and the \<^verbatim>\<open>OnSuccessPolicy\<close> guard
  does; the \<^verbatim>\<open>OnFailPolicy\<close> guard calls it only in states whose count is greater than
  the one at construction.
\<close>

theorem nested_baseline:
  assumes "0 <s uncaught_exceptions w"
  shows "policy (fst (DeferBase_ctor OnFail f w)) = OnFailPolicy (uncaught_exceptions w)
       \<and> policy (fst (DeferBase_ctor OnSuccess h w)) = OnSuccessPolicy (uncaught_exceptions w)
       \<and> policy (fst (DeferBase_ctor OnFail f w)) \<noteq> OnFailPolicy 0
       \<and> policy (fst (DeferBase_ctor OnSuccess h w)) \<noteq> OnSuccessPolicy 0
       \<and> calls (DeferBase_dtor (fst (DeferBase_ctor OnFail f w)) (w\<lparr>calls := cs\<rparr>)) = cs
       \<and> calls (DeferBase_dtor (fst (DeferBase_ctor OnSuccess h w)) (w\<lparr>calls := cs\<rparr>))
           = cs @ [h]
       \<and> should_execute (policy (fst (DeferBase_ctor OnFail f w))) n
           = (uncaught_exceptions w <s n)"
proof -
  have "uncaught_exceptions w \<noteq> 0"
    using assms by (auto simp add: word_sless_alt)
  then show ?thesis
    by (simp add: DeferBase_ctor_def DeferBase_dtor_def word_sless_alt)
qed

theorem nested_baseline_witness:
  "0 <s uncaught_exceptions (throw_exception test_start)
   \<and> policy (fst (DeferBase_ctor OnFail set_y (throw_exception test_start))) = OnFailPolicy 1
   \<and> calls (DeferBase_dtor (fst (DeferBase_ctor OnFail set_y (throw_exception test_start)))
        (throw_exception test_start)) = []
   \<and> calls (DeferBase_dtor (fst (DeferBase_ctor OnSuccess set_x (throw_exception test_start)))
        (throw_exception test_start)) = [set_x]"
proof -
  have p: "0 <s uncaught_exceptions (throw_exception test_start)"
    by (simp add: test_start_def throw_exception_def word_sless_alt)
  have u: "uncaught_exceptions (throw_exception test_start) = 1"
    by (simp add: test_start_def throw_exception_def)
  have e: "(throw_exception test_start)\<lparr>calls := []\<rparr> = throw_exception test_start"
    by (simp add: test_start_def throw_exception_def)
  show ?thesis
    using nested_baseline [OF p, of set_y set_x "[]"] p u e by simp
qed

subsection \<open>Order of the calls\<close>

text \<open>
  C7. Two guards of the \<^verbatim>\<open>OnExitPolicy\<close> declared one after the other in a block, \<open>a\<close>
  with callable \<open>fa\<close> and then \<open>b\<close> with callable \<open>fb\<close>, neither released nor moved from:
  leaving the block, normally or after \<^verbatim>\<open>throw\<close>, calls \<open>fb\<close> first and \<open>fa\<close> second.
\<close>

theorem exit_guards_fire_in_reverse:
  assumes "DeferBase_ctor OnExit fa w = (a, w1)"
      and "DeferBase_ctor OnExit fb w1 = (b, w2)"
  shows "calls (leave_block [a, b] w2) = calls w @ [fb, fa]
       \<and> calls (leave_block [a, b] (throw_exception w2)) = calls w @ [fb, fa]"
proof -
  from assms(1) have a: "a = \<lparr>policy = OnExitPolicy True, func = fa\<rparr>" and w1: "w1 = w"
    by (simp_all add: DeferBase_ctor_def)
  from assms(2) have b: "b = \<lparr>policy = OnExitPolicy True, func = fb\<rparr>" and w2: "w2 = w"
    by (simp_all add: DeferBase_ctor_def w1)
  show ?thesis
    by (simp add: a b w2 DeferBase_dtor_def throw_exception_def)
qed

theorem exit_guards_fire_in_reverse_witness:
  "DeferBase_ctor OnExit set_x test_start
     = (\<lparr>policy = OnExitPolicy True, func = set_x\<rparr>, test_start)
   \<and> DeferBase_ctor OnExit set_y test_start
     = (\<lparr>policy = OnExitPolicy True, func = set_y\<rparr>, test_start)
   \<and> calls (leave_block [\<lparr>policy = OnExitPolicy True, func = set_x\<rparr>,
                          \<lparr>policy = OnExitPolicy True, func = set_y\<rparr>] test_start)
     = [set_y, set_x]"
proof -
  have a: "DeferBase_ctor OnExit set_x test_start
     = (\<lparr>policy = OnExitPolicy True, func = set_x\<rparr>, test_start)"
    by (simp add: DeferBase_ctor_def)
  have b: "DeferBase_ctor OnExit set_y test_start
     = (\<lparr>policy = OnExitPolicy True, func = set_y\<rparr>, test_start)"
    by (simp add: DeferBase_ctor_def)
  have c: "calls test_start = []"
    by (simp add: test_start_def)
  show ?thesis
    using exit_guards_fire_in_reverse [OF a b] a b c by simp
qed

subsection \<open>Construction and move construction make no call\<close>

text \<open>
  C8. For every policy class \<open>k\<close>, callable \<open>f\<close>, guard \<open>g\<close> and state \<open>w\<close> (and whatever
  \<open>mv\<close> a move leaves of the callable): the constructor and the move constructor leave
  the program state as it was, and with it the list of calls made.
\<close>

theorem constructors_call_nothing:
  "snd (DeferBase_ctor k f w) = w
   \<and> calls (snd (DeferBase_ctor k f w)) = calls w
   \<and> snd (snd (DeferBase_move mv g w)) = w
   \<and> calls (snd (snd (DeferBase_move mv g w))) = calls w"
  by (simp add: DeferBase_ctor_def DeferBase_move_def)

subsection \<open>Release is idempotent\<close>

lemma DeferBase_release_twice:
  "DeferBase_release (DeferBase_release g) = DeferBase_release g"
  by (simp add: DeferBase_release_def release_release)

lemma DeferBase_release_funpow:
  "(DeferBase_release ^^ Suc m) g = DeferBase_release g"
  by (induction m) (simp_all add: DeferBase_release_twice)

text \<open>
  C9. For every policy object \<open>p\<close> and every guard \<open>g\<close>: \<^verbatim>\<open>release()\<close> called twice, or any
  number \<open>m + 1\<close> of times, leaves the same object as \<^verbatim>\<open>release()\<close> called once, and so
  the same destructor. \<^verbatim>\<open>release()\<close> is \<^verbatim>\<open>noexcept\<close> and touches the object only: the
  model's function is total and takes no program state.
\<close>

theorem release_idempotent:
  "release (release p) = release p
   \<and> DeferBase_release (DeferBase_release g) = DeferBase_release g
   \<and> (DeferBase_release ^^ Suc m) g = DeferBase_release g
   \<and> DeferBase_dtor ((DeferBase_release ^^ Suc m) g) w = DeferBase_dtor (DeferBase_release g) w"
  by (simp only: release_release DeferBase_release_twice DeferBase_release_funpow simp_thms)

subsection \<open>What move construction copies\<close>

text \<open>
  C10, as the code has it. The destination of a move construction is a copy of the
  source as it was before the move, policy object and callable, for every policy class;
  the source is then the released source, with what the move leaves of its callable. A guard of the \<^verbatim>\<open>OnFailPolicy\<close> or the
  \<^verbatim>\<open>OnSuccessPolicy\<close> constructed in state \<open>w0\<close> and moved in any state \<open>w\<close> gives a
  destination whose stored count is the one of \<open>w0\<close>, and the destination's
  \<^verbatim>\<open>should_execute()\<close> is the source's. For a guard of the \<^verbatim>\<open>OnExitPolicy\<close>, the
  \<^verbatim>\<open>OnFailPolicy\<close> or the \<^verbatim>\<open>OnSuccessPolicy\<close> that was released before the move, the
  destination's destructor calls nothing in any state with a count of zero or more.
\<close>

theorem move_copies_policy:
  assumes "policy g \<noteq> OnExitNoCheckPolicy"
      and "0 \<le>s uncaught_exceptions w2"
  shows "fst (DeferBase_move mv g' w) = g'
       \<and> fst (snd (DeferBase_move mv g' w)) = DeferBase_release (g'\<lparr>func := mv (func g')\<rparr>)
       \<and> policy (fst (snd (DeferBase_move mv g' w))) = release (policy g')
       \<and> policy (fst (DeferBase_move mv (fst (DeferBase_ctor OnFail f w0)) w))
           = OnFailPolicy (uncaught_exceptions w0)
       \<and> policy (fst (DeferBase_move mv (fst (DeferBase_ctor OnSuccess f w0)) w))
           = OnSuccessPolicy (uncaught_exceptions w0)
       \<and> should_execute (policy (fst (DeferBase_move mv g' w))) n
           = should_execute (policy g') n
       \<and> DeferBase_dtor (fst (DeferBase_move mv (DeferBase_release g) w)) w2 = w2"
proof -
  have "DeferBase_dtor (DeferBase_release g) w2 = w2"
    using assms by (rule dtor_of_released)
  then show ?thesis
    by (simp add: move_gives_copy)
      (simp add: DeferBase_move_def DeferBase_ctor_def DeferBase_release_def)
qed

theorem move_copies_policy_witness:
  "policy (fst (DeferBase_ctor OnSuccess set_x test_start)) \<noteq> OnExitNoCheckPolicy
   \<and> 0 \<le>s uncaught_exceptions test_start
   \<and> calls (DeferBase_dtor (fst (DeferBase_ctor OnSuccess set_x test_start)) test_start)
       = [set_x]
   \<and> DeferBase_dtor
        (fst (DeferBase_move closure_move
           (DeferBase_release (fst (DeferBase_ctor OnSuccess set_x test_start)))
           test_start))
        test_start = test_start"
proof -
  have p: "policy (fst (DeferBase_ctor OnSuccess set_x test_start)) \<noteq> OnExitNoCheckPolicy"
    by (simp add: DeferBase_ctor_def)
  have c: "calls (DeferBase_dtor (fst (DeferBase_ctor OnSuccess set_x test_start)) test_start)
       = [set_x]"
    by (simp add: DeferBase_dtor_def DeferBase_ctor_def test_start_def)
  show ?thesis
    using move_copies_policy [OF p test_start_nonneg, where w = test_start] p c
      test_start_nonneg
    by (simp add: DeferBase_move_def)
qed

text \<open>
  Counterexample to C10 as stated, with the \<^verbatim>\<open>OnExitNoCheckPolicy\<close>: a guard of this policy on which
  \<^verbatim>\<open>release()\<close> was called and which is then moved gives a destination whose destructor
  calls the callable.
\<close>

theorem move_released_nocheck_fires:
  "calls (DeferBase_dtor
       (fst (DeferBase_move closure_move
          (DeferBase_release (fst (DeferBase_ctor OnExitNoCheck set_x test_start)))
          test_start))
       test_start)
   = [set_x]"
  by (simp add: DeferBase_dtor_def DeferBase_move_def DeferBase_release_def
      DeferBase_ctor_def test_start_def)

end
